theory Spec2Isabelle
  imports Complex_Main
begin

section \<open>Get\_spikes\_df.py: telemetry table, cleaning, spikes and flagged sensors\<close>

subsection \<open>Values\<close>

text \<open>
  A cell of a pandas DataFrame is a value or null (None, NaN, NaT): an \<open>option\<close>.
  Identifiers, channel flags and channel states are the integers the service sends,
  the reading is a number, and a point in time is a count of microseconds (the
  resolution of \<open>datetime.now()\<close>; a pandas timestamp built from whole seconds is a
  multiple of a million of them).
\<close>

type_synonym timestamp = int

text \<open>
  The table \<open>sensors_df\<close> has the column \<open>sensor_index\<close> and the four requested
  fields. A row of it is a record; the cleaned table has the same columns with
  \<open>pm2.5_10minute\<close> renamed to \<open>pm25\<close> (line 133), so the two row types share
  their first four fields.
\<close>

record row_base =
  sensor_index :: "int option"
  last_seen :: "timestamp option"
  channel_state :: "int option"
  channel_flags :: "int option"

record sensor_row = row_base +
  pm2_5_10minute :: "real option"

record clean_row = row_base +
  pm25 :: "real option"

text \<open>
  Comparisons of a column with a scalar, elementwise. On a null cell pandas answers
  False to \<open><\<close>, \<open>>=\<close> and \<open>==\<close>, and True to \<open>!=\<close>.
\<close>

definition cell_lt :: "'a::linorder option \<Rightarrow> 'a \<Rightarrow> bool" where
  "cell_lt c v = (case c of None \<Rightarrow> False | Some x \<Rightarrow> x < v)"

definition cell_ge :: "'a::linorder option \<Rightarrow> 'a \<Rightarrow> bool" where
  "cell_ge c v = (case c of None \<Rightarrow> False | Some x \<Rightarrow> v \<le> x)"

definition cell_eq :: "'a option \<Rightarrow> 'a \<Rightarrow> bool" where
  "cell_eq c v = (case c of None \<Rightarrow> False | Some x \<Rightarrow> x = v)"

definition cell_ne :: "'a option \<Rightarrow> 'a \<Rightarrow> bool" where
  "cell_ne c v = (case c of None \<Rightarrow> True | Some x \<Rightarrow> x \<noteq> v)"

text \<open>Durations and the conversion of epoch seconds, in microseconds.\<close>

definition to_datetime_s :: "int \<Rightarrow> timestamp" where
  "to_datetime_s s = s * 1000000"

definition Timedelta_hours :: "int \<Rightarrow> int" where
  "Timedelta_hours h = h * 3600000000"

definition timedelta_minutes :: "int \<Rightarrow> int" where
  "timedelta_minutes m = m * 60000000"

subsection \<open>The request (lines 90 to 115)\<close>

text \<open>
  Exceptions are values. \<open>Raised\<close> stands for an exception of a library call
  (requests, json, numpy, pandas, psycopg2), named by its class.
\<close>

datatype py_error = NameError string | IndexError | Raised string

text \<open>
  A Python \<open>datetime\<close>: the reading of the wall clock and the time zone it is aware
  of (None for a naive one).
\<close>

record datetime =
  wall :: timestamp
  tzinfo :: "string option"

text \<open>
  What the function does to the outside is a trace of events, in the order of the
  calls: a reading of the clock (with the zone asked for) and a GET request (its URL
  and its API key). The state counts the readings of the clock.
\<close>

datatype event = Clock_read "string option" | Http_get string string

record world =
  reads :: nat
  trace :: "event list"

text \<open>
  The outside: the instant (UTC) of the k-th reading of the clock, the offset of a
  zone from UTC at an instant (the zone database), the zone of the machine, and the
  service. The answer of the service is taken the way lines 105 to 110 read it: the
  rows of the table built from the JSON, \<open>last_seen\<close> still in epoch seconds, or
  the exception raised on the way (no connection, no JSON, no key \<open>fields\<close>, rows
  that do not fit the columns).
\<close>

record environment =
  utc_clock :: "nat \<Rightarrow> timestamp"
  utcoffset :: "string \<Rightarrow> timestamp \<Rightarrow> int"
  local_zone :: string
  purpleair :: "string \<Rightarrow> string \<Rightarrow> py_error + sensor_row list"

definition datetime_now :: "environment \<Rightarrow> string option \<Rightarrow> world \<Rightarrow> datetime \<times> world" where
  "datetime_now env tz w =
     (let utc = utc_clock env (reads w);
          zone = (case tz of None \<Rightarrow> local_zone env | Some z \<Rightarrow> z)
      in (\<lparr>wall = utc + utcoffset env zone utc, tzinfo = tz\<rparr>,
          w\<lparr>reads := Suc (reads w), trace := trace w @ [Clock_read tz]\<rparr>))"

text \<open>\<open>str\<close> of an integer and \<open>sep.join\<close>.\<close>

definition digit_char :: "nat \<Rightarrow> char" where
  "digit_char d = char_of (48 + d)"

function str_nat :: "nat \<Rightarrow> string" where
  "str_nat n = (if n < 10 then [digit_char n] else str_nat (n div 10) @ [digit_char (n mod 10)])"
  by pat_completeness auto
termination
  by (relation "measure (\<lambda>n. n)") auto

definition str_int :: "int \<Rightarrow> string" where
  "str_int i = (if i < 0 then CHR ''-'' # str_nat (nat (- i)) else str_nat (nat i))"

fun join :: "string \<Rightarrow> string list \<Rightarrow> string" where
  "join sep [] = []"
| "join sep [x] = x"
| "join sep (x # y # ys) = x @ sep @ join sep (y # ys)"

text \<open>Lines 54 to 68.\<close>

definition getSensorsData ::
  "environment \<Rightarrow> string \<Rightarrow> string \<Rightarrow> world \<Rightarrow> (py_error + sensor_row list) \<times> world" where
  "getSensorsData env query api_read_key w =
     (let url = ''https://api.purpleair.com/v1/sensors?'' @ query
      in (purpleair env url api_read_key, w\<lparr>trace := trace w @ [Http_get url api_read_key]\<rparr>))"

text \<open>Lines 92 to 98: the query string.\<close>

definition query_string :: "int list \<Rightarrow> string" where
  "query_string sensor_ids =
     (let fields = [''pm2.5_10minute'', ''channel_flags'', ''channel_state'', ''last_seen''];
          fields_string = ''fields='' @ join ''%2C'' fields;
          sensor_string = ''show_only='' @ join ''%2C'' (map str_int sensor_ids)
      in join ''&'' [fields_string, sensor_string])"

text \<open>
  Lines 114 and 115: \<open>pd.to_datetime(last_seen, unit='s') - pd.Timedelta(hours=5)\<close>,
  on every row; a null stays null (NaT).
\<close>

definition correct_last_seen :: "sensor_row \<Rightarrow> sensor_row" where
  "correct_last_seen r =
     r\<lparr>last_seen := map_option (\<lambda>s. to_datetime_s s - Timedelta_hours 5) (last_seen r)\<rparr>"

text \<open>
  Lines 90 to 115: the clock is read in the zone America/Chicago, then the request is
  made, then \<open>last_seen\<close> is corrected.
\<close>

definition fetch_sensors_df ::
  "environment \<Rightarrow> string \<Rightarrow> int list \<Rightarrow> world \<Rightarrow> (py_error + datetime \<times> sensor_row list) \<times> world" where
  "fetch_sensors_df env purpleAir_api sensor_ids w =
     (let (runtime, w) = datetime_now env (Some ''America/Chicago'') w;
          (response, w) = getSensorsData env (query_string sensor_ids) purpleAir_api w
      in case response of
           Inl e \<Rightarrow> (Inl e, w)
         | Inr data \<Rightarrow> (Inr (runtime, map correct_last_seen data), w))"

subsection \<open>Cleaning (lines 117 to 141)\<close>

text \<open>
  Line 123: the mask \<open>flags\<close>, for one row. \<open>now\<close> is the naive local time
  \<open>dt.datetime.now()\<close> read on line 125.
\<close>

definition flags :: "timestamp \<Rightarrow> sensor_row \<Rightarrow> bool" where
  "flags now r =
     (cell_ne (channel_flags r) 0
      \<or> cell_eq (channel_state r) 0
      \<or> cell_lt (last_seen r) (now - timedelta_minutes 60))"

text \<open>Line 133: \<open>rename(columns = {'pm2.5_10minute': 'pm25'})\<close>.\<close>

definition rename_pm25 :: "sensor_row \<Rightarrow> clean_row" where
  "rename_pm25 r =
     \<lparr>sensor_index = sensor_index r, last_seen = last_seen r,
      channel_state = channel_state r, channel_flags = channel_flags r,
      pm25 = pm2_5_10minute r\<rparr>"

text \<open>Line 141: \<open>dropna()\<close> keeps the rows with no null cell.\<close>

definition notna :: "clean_row \<Rightarrow> bool" where
  "notna r =
     (sensor_index r \<noteq> None \<and> last_seen r \<noteq> None \<and> channel_state r \<noteq> None
      \<and> channel_flags r \<noteq> None \<and> pm25 r \<noteq> None)"

text \<open>Lines 129 to 141: \<open>clean_df\<close> from \<open>sensors_df\<close>.\<close>

definition clean_data :: "timestamp \<Rightarrow> sensor_row list \<Rightarrow> clean_row list" where
  "clean_data now sensors_df =
     (let clean_df = filter (\<lambda>r. \<not> flags now r) sensors_df;
          clean_df = map rename_pm25 clean_df;
          clean_df = filter (\<lambda>r. cell_lt (pm25 r) 1000) clean_df;
          clean_df = filter notna clean_df
      in clean_df)"

subsection \<open>Spikes and flagged sensors (lines 143 to 151)\<close>

text \<open>
  Line 145: the rows of \<open>clean_df\<close> with \<open>pm25 >= spike_threshold\<close>, the columns
  \<open>sensor_index\<close> and \<open>pm25\<close> of them, in order.
\<close>

definition get_spikes :: "real \<Rightarrow> clean_row list \<Rightarrow> (int option \<times> real option) list" where
  "get_spikes spike_threshold clean_df =
     map (\<lambda>r. (sensor_index r, pm25 r))
       (filter (\<lambda>r. cell_ge (pm25 r) spike_threshold) clean_df)"

text \<open>
  Lines 149 and 151: the \<open>sensor_index\<close> of every row of \<open>sensors_df\<close> whose
  \<open>sensor_index\<close> is not one of \<open>clean_df\<close>.
\<close>

definition get_flagged :: "sensor_row list \<Rightarrow> clean_row list \<Rightarrow> int option list" where
  "get_flagged sensors_df clean_df =
     map sensor_index
       (filter (\<lambda>r. sensor_index r \<notin> set (map sensor_index clean_df)) sensors_df)"

subsection \<open>The function (lines 72 to 153)\<close>

definition Get_spikes_df ::
  "environment \<Rightarrow> string \<Rightarrow> int list \<Rightarrow> real \<Rightarrow> world \<Rightarrow>
     (py_error + (int option \<times> real option) list \<times> datetime \<times> int option list) \<times> world" where
  "Get_spikes_df env purpleAir_api sensor_ids spike_threshold w =
     (case fetch_sensors_df env purpleAir_api sensor_ids w of
        (Inl e, w) \<Rightarrow> (Inl e, w)
      | (Inr (runtime, sensors_df), w) \<Rightarrow>
          (let (now, w) = datetime_now env None w;
               clean_df = clean_data (wall now) sensors_df;
               spikes_df = get_spikes spike_threshold clean_df;
               flagged_sensor_ids = get_flagged sensors_df clean_df
           in (Inr (spikes_df, runtime, flagged_sensor_ids), w)))"

section \<open>Send\_Alerts.py: subscribers, reports and messages\<close>

subsection \<open>The store\<close>

text \<open>
  The tables the queries name, each a list of rows with the columns the queries use.
  \<open>'g\<close> is the type of a PostGIS geometry. The table declarations are not part of
  the sources: columns are taken as not null, except the columns of a report that the
  INSERT fills from aggregates (an aggregate over no rows is NULL).
\<close>

record 'g station =
  s_sensor_index :: int
  s_geometry :: 'g

record 'g user =
  record_id :: int
  u_geometry :: 'g
  subscribed :: bool
  active_alerts :: "int list"
  cached_alerts :: "int list"
  messages_sent :: int
  last_messaged :: "timestamp option"

record alert =
  alert_index :: int
  p_start_time :: timestamp
  p_max_reading :: real
  p_sensor_indices :: "int list"

record report =
  report_id :: int
  start_time :: "timestamp option"
  duration_minutes :: "int option"
  max_reading :: "real option"
  sensor_indices :: "int list option"
  report_cached_alerts :: "int list"

record 'g database =
  stations :: "'g station list"
  sign_up :: "'g user list"
  archived_alerts :: "alert list"
  reports_archive :: "report list"

text \<open>
  PostGIS: \<open>ST_Transform\<close> projects a geometry to a spatial reference system,
  \<open>ST_Distance\<close> is the planar distance of two geometries in the units of their
  system (metres in EPSG 26915), and \<open>ST_DWithin\<close> holds when that distance is at
  most the bound.
\<close>

record 'g postgis =
  ST_Transform :: "'g \<Rightarrow> int \<Rightarrow> 'g"
  ST_Distance :: "'g \<Rightarrow> 'g \<Rightarrow> real"

definition ST_DWithin :: "'g postgis \<Rightarrow> 'g \<Rightarrow> 'g \<Rightarrow> real \<Rightarrow> bool" where
  "ST_DWithin gis g1 g2 d = (ST_Distance gis g1 g2 \<le> d)"

subsection \<open>Users\_nearby\_sensor (lines 43 to 81)\<close>

text \<open>
  The CTE \<open>sensor\<close> holds the stations with the given index; the SELECT takes the
  \<open>record_id\<close> of every pair of a user and such a station that passes the WHERE
  clause. The function only reads: the store is returned as it was.
\<close>

definition Users_nearby_sensor ::
  "'g postgis \<Rightarrow> 'g database \<Rightarrow> int \<Rightarrow> real \<Rightarrow> int list \<times> 'g database" where
  "Users_nearby_sensor gis db sensor_index' distance =
     (let sensor = filter (\<lambda>s. s_sensor_index s = sensor_index') (stations db);
          pairs = concat (map (\<lambda>u. map (\<lambda>s. (u, s)) sensor) (sign_up db));
          record_ids =
            map (\<lambda>(u, s). record_id u)
              (filter (\<lambda>(u, s). subscribed u
                  \<and> ST_DWithin gis (ST_Transform gis (u_geometry u) 26915)
                        (ST_Transform gis (s_geometry s) 26915) distance) pairs)
      in (record_ids, db))"

subsection \<open>Users\_to\_message\_new\_alert (lines 85 to 114)\<close>

definition Users_to_message_new_alert ::
  "'g database \<Rightarrow> int list \<Rightarrow> int list \<times> 'g database" where
  "Users_to_message_new_alert db record_ids =
     (let record_ids_to_text =
            map record_id
              (filter (\<lambda>u. active_alerts u = [] \<and> cached_alerts u = []
                  \<and> record_id u \<in> set record_ids) (sign_up db))
      in (record_ids_to_text, db))"

subsection \<open>initialize\_report (lines 117 to 187)\<close>

text \<open>
  The names bound at the top level of the module Send\_Alerts, in the order of the
  file, each with the kind of its value.
\<close>

datatype py_value = Py_module | Py_function | Py_list | Py_dict | Py_int int

definition Send_Alerts_globals :: "(string \<times> py_value) list" where
  "Send_Alerts_globals =
     [(''os'', Py_module), (''sys'', Py_module), (''load_dotenv'', Py_function),
      (''requests'', Py_module), (''dt'', Py_module), (''pytz'', Py_module),
      (''psycopg2'', Py_module), (''sql'', Py_module), (''np'', Py_module), (''gpd'', Py_module),
      (''pd'', Py_module), (''twilio_functions'', Py_module), (''creds'', Py_list),
      (''pg_connection_dict'', Py_dict), (''Users_nearby_sensor'', Py_function),
      (''Users_to_message_new_alert'', Py_function), (''initialize_report'', Py_function),
      (''send_all_messages'', Py_function), (''get_phone_numbers'', Py_function),
      (''update_user_table'', Py_function)]"

text \<open>
  Reading a name that the function does not assign and that is not a parameter: the
  module's globals are searched (no builtin is named \<open>report_id\<close>), and a name
  that is not bound raises NameError.
\<close>

definition load_global :: "string \<Rightarrow> py_error + py_value" where
  "load_global name =
     (case map_of Send_Alerts_globals name of
        None \<Rightarrow> Inl (NameError name)
      | Some v \<Rightarrow> Inr v)"

text \<open>
  Division that truncates towards zero, as the fields of a PostgreSQL interval do:
  the days, hours and minutes of a negative interval are negative.
\<close>

definition tdiv :: "int \<Rightarrow> int \<Rightarrow> int" where
  "tdiv a b = sgn a * sgn b * (\<bar>a\<bar> div \<bar>b\<bar>)"

definition tmod :: "int \<Rightarrow> int \<Rightarrow> int" where
  "tmod a b = a - tdiv a b * b"

definition DATE_PART_day :: "int \<Rightarrow> int" where
  "DATE_PART_day time_diff = tdiv time_diff 86400000000"

definition DATE_PART_hour :: "int \<Rightarrow> int" where
  "DATE_PART_hour time_diff = tdiv (tmod time_diff 86400000000) 3600000000"

definition DATE_PART_minute :: "int \<Rightarrow> int" where
  "DATE_PART_minute time_diff = tdiv (tmod time_diff 3600000000) 60000000"

text \<open>Aggregates over a list of rows: NULL over no rows.\<close>

definition MIN_agg :: "'a::linorder list \<Rightarrow> 'a option" where
  "MIN_agg xs = (if xs = [] then None else Some (Min (set xs)))"

definition MAX_agg :: "'a::linorder list \<Rightarrow> 'a option" where
  "MAX_agg xs = (if xs = [] then None else Some (Max (set xs)))"

text \<open>
  \<open>ARRAY_AGG\<close> over arrays stacks them into a two-dimensional array: it is NULL
  over no rows, and an error when an array is empty or the arrays differ in length.
\<close>

definition ARRAY_AGG_arrays :: "int list list \<Rightarrow> py_error + int list list option" where
  "ARRAY_AGG_arrays xss =
     (if xss = [] then Inr None
      else if list_ex (\<lambda>xs. xs = [] \<or> length xs \<noteq> length (hd xss)) xss
        then Inl (Raised ''psycopg2.Error'')
      else Inr (Some xss))"

text \<open>
  \<open>ARRAY_AGG(DISTINCT x.v)\<close> over the unnested elements: NULL when there is none,
  else the distinct elements (in ascending order).
\<close>

definition ARRAY_AGG_DISTINCT :: "int list \<Rightarrow> int list option" where
  "ARRAY_AGG_DISTINCT vs = (if vs = [] then None else Some (sort (remdups vs)))"

text \<open>
  The INSERT of lines 133 to 161, for a record id, a report id and the value of
  \<open>CURRENT_TIMESTAMP AT TIME ZONE 'America/Chicago'\<close>. \<open>alerts\<close> and
  \<open>unnested_sensors\<close> have one row each; one report is inserted per row of
  \<open>alert_cache\<close>.
\<close>

definition insert_report ::
  "timestamp \<Rightarrow> int \<Rightarrow> int \<Rightarrow> 'g database \<Rightarrow> py_error + 'g database" where
  "insert_report current_timestamp record_id' report_id' db =
     (let alert_cache = map cached_alerts (filter (\<lambda>u. record_id u = record_id') (sign_up db));
          joined = concat (map (\<lambda>p. concat (map (\<lambda>c.
                      if alert_index p \<in> set c then [p] else []) alert_cache)) (archived_alerts db));
          a_start_time = MIN_agg (map p_start_time joined);
          a_time_diff = map_option (\<lambda>t. current_timestamp - t) a_start_time;
          a_max_reading = MAX_agg (map p_max_reading joined)
      in case ARRAY_AGG_arrays (map p_sensor_indices joined) of
           Inl e \<Rightarrow> Inl e
         | Inr a_sensor_indices \<Rightarrow>
             (let n_sensor_indices =
                    ARRAY_AGG_DISTINCT (case a_sensor_indices of None \<Rightarrow> [] | Some xss \<Rightarrow> concat xss);
                  new_rows = map (\<lambda>c.
                    \<lparr>report_id = report_id',
                     start_time = a_start_time,
                     duration_minutes = map_option (\<lambda>d.
                        (DATE_PART_day d * 24 + DATE_PART_hour d) * 60 + DATE_PART_minute d) a_time_diff,
                     max_reading = a_max_reading,
                     sensor_indices = n_sensor_indices,
                     report_cached_alerts = c\<rparr>) alert_cache
              in Inr (db\<lparr>reports_archive := reports_archive db @ new_rows\<rparr>)))"

text \<open>The SELECT of lines 171 to 174.\<close>

definition select_report :: "int \<Rightarrow> 'g database \<Rightarrow> (int option \<times> real option) list" where
  "select_report report_id' db =
     map (\<lambda>r. (duration_minutes r, max_reading r))
       (filter (\<lambda>r. report_id r = report_id') (reports_archive db))"

text \<open>
  The function. Its parameters are \<open>record_id\<close>, \<open>reports_for_day\<close> and
  \<open>pg_connection_dict\<close>; the body reads \<open>report_id\<close> when it formats the INSERT
  (line 163), which is neither a parameter nor assigned in the body, so it is looked
  up among the globals. \<open>fetchall()[0]\<close> raises IndexError on no row.
\<close>

definition initialize_report ::
  "timestamp \<Rightarrow> 'g database \<Rightarrow> int \<Rightarrow> int \<Rightarrow>
     (py_error + int option \<times> real option) \<times> 'g database" where
  "initialize_report current_timestamp db record_id' reports_for_day =
     (case load_global ''report_id'' of
        Inl e \<Rightarrow> (Inl e, db)
      | Inr (Py_int report_id') \<Rightarrow>
          (case insert_report current_timestamp record_id' report_id' db of
             Inl e \<Rightarrow> (Inl e, db)
           | Inr db \<Rightarrow>
               (case select_report report_id' db of
                  [] \<Rightarrow> (Inl IndexError, db)
                | row # _ \<Rightarrow> (Inr row, db)))
      | Inr _ \<Rightarrow> (Inl (Raised ''psycopg2.Error''), db))"

subsection \<open>send\_all\_messages (lines 191 to 257)\<close>

text \<open>
  What the functions print, and the state they run in: the store and the standard
  output.
\<close>

datatype printed = Line string | Values "int list" "timestamp list" "int list"

record 'g session =
  store :: "'g database"
  stdout :: "printed list"

definition print :: "printed \<Rightarrow> 'g session \<Rightarrow> 'g session" where
  "print x st = st\<lparr>stdout := stdout st @ [x]\<rparr>"

text \<open>Lines 209 to 224.\<close>

definition get_phone_numbers :: "int list \<Rightarrow> 'g session \<Rightarrow> int list \<times> 'g session" where
  "get_phone_numbers users st =
     (let st = print (Line ''getting numbers!'') st;
          numbers = map (\<lambda>record_id'. record_id' * 100) users
      in (numbers, st))"

text \<open>
  Lines 228 to 257: the SELECT reads \<open>messages_sent\<close> of the listed users, the new
  counts are computed and printed, and no statement writes them.
\<close>

definition update_user_table :: "int list \<Rightarrow> timestamp list \<Rightarrow> 'g session \<Rightarrow> 'g session" where
  "update_user_table record_ids times' st =
     (let st = print (Line ''updating Sign Up Information'') st;
          messages_sent_list =
            map messages_sent (filter (\<lambda>u. record_id u \<in> set record_ids) (sign_up (store st)));
          messages_sent_new = map (\<lambda>v. v + 1) messages_sent_list;
          st = print (Values record_ids times' messages_sent_new) st;
          st = print (Line ''fancy SQL to update the sign up table still pending'') st
      in st)"

text \<open>
  Lines 191 to 205. \<open>twilio_functions.send_texts\<close> is not part of the sources: it is
  a parameter, which sends the texts and answers the times of delivery, or raises.
\<close>

definition send_all_messages ::
  "(int list \<Rightarrow> string list \<Rightarrow> py_error + timestamp list) \<Rightarrow> int list \<Rightarrow> string list \<Rightarrow>
     'g session \<Rightarrow> (py_error + unit) \<times> 'g session" where
  "send_all_messages send_texts record_ids messages st =
     (let (numbers, st) = get_phone_numbers record_ids st
      in case send_texts numbers messages of
           Inl e \<Rightarrow> (Inl e, st)
         | Inr times' \<Rightarrow> (Inr (), update_user_table record_ids times' st))"

section \<open>Derived notions and example data\<close>

text \<open>
  The three filters of lines 129 to 141 as one predicate on a row of \<open>sensors_df\<close>:
  the row is kept by the mask, by \<open>pm25 < 1000\<close> and by \<open>dropna\<close>.
\<close>

definition usable :: "timestamp \<Rightarrow> sensor_row \<Rightarrow> bool" where
  "usable now r =
     (\<not> flags now r \<and> cell_lt (pm2_5_10minute r) 1000 \<and> notna (rename_pm25 r))"

text \<open>
  The rows that pass the mask of line 129 and are removed by line 137 or line 141:
  the rows dropped as unusable.
\<close>

definition dropped_unusable :: "timestamp \<Rightarrow> sensor_row list \<Rightarrow> clean_row list" where
  "dropped_unusable now sensors_df =
     filter (\<lambda>r. \<not> (cell_lt (pm25 r) 1000 \<and> notna r))
       (map rename_pm25 (filter (\<lambda>r. \<not> flags now r) sensors_df))"

text \<open>A row with a reading of 1000 or more, or with a null cell.\<close>

definition unusable :: "sensor_row \<Rightarrow> bool" where
  "unusable r =
     (cell_ge (pm2_5_10minute r) 1000 \<or> sensor_index r = None \<or> last_seen r = None
      \<or> channel_state r = None \<or> channel_flags r = None \<or> pm2_5_10minute r = None)"

text \<open>
  An answer of the service with four sensors, seen at second 18000 of the epoch:
  sensor 1 reads 40, sensor 2 reads 5 with channel A downgraded, sensor 3 reads 1000
  and sensor 4 reads -1.
\<close>

definition example_rows :: "sensor_row list" where
  "example_rows =
     [\<lparr>sensor_index = Some 1, last_seen = Some 18000, channel_state = Some 3,
       channel_flags = Some 0, pm2_5_10minute = Some 40\<rparr>,
      \<lparr>sensor_index = Some 2, last_seen = Some 18000, channel_state = Some 3,
       channel_flags = Some 1, pm2_5_10minute = Some 5\<rparr>,
      \<lparr>sensor_index = Some 3, last_seen = Some 18000, channel_state = Some 3,
       channel_flags = Some 0, pm2_5_10minute = Some 1000\<rparr>,
      \<lparr>sensor_index = Some 4, last_seen = Some 18000, channel_state = Some 3,
       channel_flags = Some 0, pm2_5_10minute = Some (- 1)\<rparr>]"

text \<open>
  A machine in the zone America/Chicago, five hours behind UTC, whose clock shows
  second 18000 of the epoch at the first reading and one second more at each
  following one.
\<close>

definition example_env :: environment where
  "example_env =
     \<lparr>utc_clock = (\<lambda>k. (18000 + int k) * 1000000),
      utcoffset = (\<lambda>zone t. - 18000000000),
      local_zone = ''America/Chicago'',
      purpleair = (\<lambda>url key. Inr example_rows)\<rparr>"

text \<open>The table \<open>sensors_df\<close> of that answer, and the time of line 125 in that run.\<close>

definition example_sensors_df :: "sensor_row list" where
  "example_sensors_df = map correct_last_seen example_rows"

definition example_now :: timestamp where
  "example_now = 1000000"

definition world0 :: world where
  "world0 = \<lparr>reads = 0, trace = []\<rparr>"

text \<open>
  A store on a line: a geometry is a position in metres, the projection leaves it as
  it is and the distance is the absolute difference. Sensor 1 is at 0; user 10 is
  50 m away, user 11 is 500 m away and has an active alert, user 12 is 20 m away,
  not subscribed, with a cached alert.
\<close>

definition example_gis :: "int postgis" where
  "example_gis =
     \<lparr>ST_Transform = (\<lambda>g srid. g), ST_Distance = (\<lambda>a b. real_of_int \<bar>a - b\<bar>)\<rparr>"

definition example_db :: "int database" where
  "example_db =
     \<lparr>stations = [\<lparr>s_sensor_index = 1, s_geometry = 0\<rparr>],
      sign_up =
        [\<lparr>record_id = 10, u_geometry = 50, subscribed = True, active_alerts = [],
          cached_alerts = [], messages_sent = 0, last_messaged = None\<rparr>,
         \<lparr>record_id = 11, u_geometry = 500, subscribed = True, active_alerts = [5],
          cached_alerts = [], messages_sent = 2, last_messaged = Some 0\<rparr>,
         \<lparr>record_id = 12, u_geometry = 20, subscribed = False, active_alerts = [],
          cached_alerts = [9], messages_sent = 1, last_messaged = Some 0\<rparr>],
      archived_alerts =
        [\<lparr>alert_index = 9, p_start_time = 0, p_max_reading = 60, p_sensor_indices = [1]\<rparr>],
      reports_archive = []\<rparr>"

section \<open>Properties\<close>

subsection \<open>Helper lemmas on the cleaning stage\<close>

lemma sensor_index_rename [simp]: "sensor_index (rename_pm25 r) = sensor_index r"
  by (simp add: rename_pm25_def)

lemma pm25_rename [simp]: "pm25 (rename_pm25 r) = pm2_5_10minute r"
  by (simp add: rename_pm25_def)

lemma rename_pm25_inj: "rename_pm25 r = rename_pm25 r' \<Longrightarrow> r = r'"
  by (cases r, cases r') (simp add: rename_pm25_def)

lemma clean_data_filter:
  "clean_data now sensors_df = map rename_pm25 (filter (usable now) sensors_df)"
  by (induction sensors_df) (auto simp: clean_data_def usable_def)

lemma in_clean_data:
  "c \<in> set (clean_data now sensors_df) \<longleftrightarrow>
     (\<exists>r \<in> set sensors_df. c = rename_pm25 r \<and> usable now r)"
  by (auto simp: clean_data_filter)

lemma rename_in_clean_data:
  "r \<in> set sensors_df \<Longrightarrow> rename_pm25 r \<in> set (clean_data now sensors_df) \<longleftrightarrow> usable now r"
  by (auto simp: in_clean_data dest: rename_pm25_inj)

lemma usable_iff:
  "usable now r \<longleftrightarrow>
     channel_flags r = Some 0
     \<and> (\<exists>s. channel_state r = Some s \<and> s \<noteq> 0)
     \<and> (\<exists>t. last_seen r = Some t \<and> now - timedelta_minutes 60 \<le> t)
     \<and> (\<exists>p. pm2_5_10minute r = Some p \<and> p < 1000)
     \<and> sensor_index r \<noteq> None"
  by (auto simp: usable_def flags_def notna_def rename_pm25_def cell_lt_def cell_ne_def
      cell_eq_def split: option.splits)

lemma usable_not_unusable: "usable now r \<Longrightarrow> \<not> unusable r"
  by (auto simp: usable_iff unusable_def cell_ge_def)

lemma clean_notnull:
  "r \<in> set (clean_data now sensors_df) \<Longrightarrow> \<exists>p. pm25 r = Some p"
  by (auto simp: clean_data_def notna_def)

lemma spikes_ids_subset:
  "set (map fst (get_spikes thr clean_df)) \<subseteq> set (map sensor_index clean_df)"
  by (auto simp: get_spikes_def)

lemma flagged_clean_disjoint:
  "set (get_flagged sensors_df clean_df) \<inter> set (map sensor_index clean_df) = {}"
  by (auto simp: get_flagged_def)

lemma flagged_cover:
  "set (map sensor_index sensors_df)
     \<subseteq> set (get_flagged sensors_df clean_df) \<union> set (map sensor_index clean_df)"
  by (auto simp: get_flagged_def)

lemma flagged_subset:
  "set (get_flagged sensors_df clean_df) \<subseteq> set (map sensor_index sensors_df)"
  by (auto simp: get_flagged_def)

lemma clean_ids_subset:
  "set (map sensor_index (clean_data now sensors_df)) \<subseteq> set (map sensor_index sensors_df)"
  by (auto simp: clean_data_filter)

lemma rows_cover:
  "set (map rename_pm25 sensors_df) =
     set (map rename_pm25 (filter (flags now) sensors_df))
     \<union> set (clean_data now sensors_df) \<union> set (dropped_unusable now sensors_df)"
  by (auto simp: clean_data_filter dropped_unusable_def usable_def)

lemma Get_spikes_df_Inr:
  assumes "Get_spikes_df env purpleAir_api sensor_ids spike_threshold w =
             (Inr (spikes_df, runtime, flagged_sensor_ids), w')"
  shows "\<exists>sensors_df w1.
     fetch_sensors_df env purpleAir_api sensor_ids w = (Inr (runtime, sensors_df), w1)
     \<and> spikes_df =
         get_spikes spike_threshold (clean_data (wall (fst (datetime_now env None w1))) sensors_df)
     \<and> flagged_sensor_ids =
         get_flagged sensors_df (clean_data (wall (fst (datetime_now env None w1))) sensors_df)
     \<and> w' = snd (datetime_now env None w1)"
  using assms
  by (auto simp: Get_spikes_df_def Let_def split: prod.splits sum.splits)

subsection \<open>Evaluation of the example\<close>

lemma example_sensors_df_eval:
  "example_sensors_df =
     [\<lparr>sensor_index = Some 1, last_seen = Some 0, channel_state = Some 3,
       channel_flags = Some 0, pm2_5_10minute = Some 40\<rparr>,
      \<lparr>sensor_index = Some 2, last_seen = Some 0, channel_state = Some 3,
       channel_flags = Some 1, pm2_5_10minute = Some 5\<rparr>,
      \<lparr>sensor_index = Some 3, last_seen = Some 0, channel_state = Some 3,
       channel_flags = Some 0, pm2_5_10minute = Some 1000\<rparr>,
      \<lparr>sensor_index = Some 4, last_seen = Some 0, channel_state = Some 3,
       channel_flags = Some 0, pm2_5_10minute = Some (- 1)\<rparr>]"
  by code_simp

lemma example_run:
  "Get_spikes_df example_env ''key'' [1, 2, 3, 4] 35 world0 =
     (Inr ([(Some 1, Some 40)], \<lparr>wall = 0, tzinfo = Some ''America/Chicago''\<rparr>,
           [Some 2, Some 3]),
      \<lparr>reads = 2,
       trace =
         [Clock_read (Some ''America/Chicago''),
          Http_get
            ''https://api.purpleair.com/v1/sensors?fields=pm2.5_10minute%2Cchannel_flags%2Cchannel_state%2Clast_seen&show_only=1%2C2%2C3%2C4''
            ''key'',
          Clock_read None]\<rparr>)"
  by code_simp

lemma example_clean:
  "clean_data example_now example_sensors_df =
     [\<lparr>sensor_index = Some 1, last_seen = Some 0, channel_state = Some 3,
       channel_flags = Some 0, pm25 = Some 40\<rparr>,
      \<lparr>sensor_index = Some 4, last_seen = Some 0, channel_state = Some 3,
       channel_flags = Some 0, pm25 = Some (- 1)\<rparr>]"
  by code_simp

subsection \<open>The claims on Get\_spikes\_df\<close>

text \<open>
  C1. A row of the fetched table is in the clean set exactly when its
  \<open>channel_flags\<close> is 0 (Normal), its \<open>channel_state\<close> is not 0 (NoPM), its
  \<open>last_seen\<close> is not before \<open>now\<close> minus 60 minutes, its reading is below 1000
  and no cell of it is null. The first four conjuncts say that the four fields are not
  null, the last one that the identifier is not.
\<close>

theorem clean_iff:
  assumes "r \<in> set sensors_df"
  shows "rename_pm25 r \<in> set (clean_data now sensors_df) \<longleftrightarrow>
     channel_flags r = Some 0
     \<and> (\<exists>s. channel_state r = Some s \<and> s \<noteq> 0)
     \<and> (\<exists>t. last_seen r = Some t \<and> now - timedelta_minutes 60 \<le> t)
     \<and> (\<exists>p. pm2_5_10minute r = Some p \<and> p < 1000)
     \<and> sensor_index r \<noteq> None"
  using rename_in_clean_data [OF assms, of now] by (simp only: usable_iff)

theorem clean_iff_witness:
  "hd example_sensors_df \<in> set example_sensors_df
   \<and> rename_pm25 (hd example_sensors_df) \<in> set (clean_data example_now example_sensors_df)
   \<and> example_sensors_df ! 1 \<in> set example_sensors_df
   \<and> rename_pm25 (example_sensors_df ! 1) \<notin> set (clean_data example_now example_sensors_df)"
proof -
  have m0: "hd example_sensors_df \<in> set example_sensors_df"
    and m1: "example_sensors_df ! 1 \<in> set example_sensors_df"
    by (simp_all add: example_sensors_df_eval)
  have "rename_pm25 (hd example_sensors_df) \<in> set (clean_data example_now example_sensors_df)"
    unfolding clean_iff [OF m0]
    by (simp add: example_sensors_df_eval example_now_def timedelta_minutes_def)
  moreover have
    "rename_pm25 (example_sensors_df ! 1) \<notin> set (clean_data example_now example_sensors_df)"
    unfolding clean_iff [OF m1]
    by (simp add: example_sensors_df_eval)
  ultimately show ?thesis using m0 m1 by simp
qed

text \<open>
  C2, as amended. A row with a reading of 1000 or more, or with a null cell, is never
  in the clean set. Its identifier is returned in \<open>flagged_sensor_ids\<close>, and is not
  among the spikes, whenever no clean row has the same identifier; that is so when the
  identifiers of the table are distinct.
\<close>

theorem unusable_not_clean_but_flagged:
  assumes "r \<in> set sensors_df" and "unusable r"
  shows "rename_pm25 r \<notin> set (clean_data now sensors_df)
     \<and> (sensor_index r \<notin> set (map sensor_index (clean_data now sensors_df)) \<longrightarrow>
          sensor_index r \<in> set (get_flagged sensors_df (clean_data now sensors_df))
          \<and> sensor_index r \<notin> set (map fst (get_spikes thr (clean_data now sensors_df))))
     \<and> (distinct (map sensor_index sensors_df) \<longrightarrow>
          sensor_index r \<notin> set (map sensor_index (clean_data now sensors_df)))"
proof (intro conjI impI)
  show nc: "rename_pm25 r \<notin> set (clean_data now sensors_df)"
    using assms usable_not_unusable by (auto simp: rename_in_clean_data)
  show "sensor_index r \<in> set (get_flagged sensors_df (clean_data now sensors_df))"
    if "sensor_index r \<notin> set (map sensor_index (clean_data now sensors_df))"
    using that assms(1) by (auto simp: get_flagged_def)
  show "sensor_index r \<notin> set (map fst (get_spikes thr (clean_data now sensors_df)))"
    if "sensor_index r \<notin> set (map sensor_index (clean_data now sensors_df))"
    using that spikes_ids_subset [of thr "clean_data now sensors_df"] by blast
  show "sensor_index r \<notin> set (map sensor_index (clean_data now sensors_df))"
    if d: "distinct (map sensor_index sensors_df)"
  proof
    assume "sensor_index r \<in> set (map sensor_index (clean_data now sensors_df))"
    then obtain r' where r': "r' \<in> set sensors_df" "usable now r'"
      "sensor_index r' = sensor_index r"
      by (auto simp: clean_data_filter)
    from d have "inj_on sensor_index (set sensors_df)" by (simp add: distinct_map)
    with r' assms(1) have "r' = r" by (auto dest: inj_onD)
    with r'(2) assms(2) usable_not_unusable show False by blast
  qed
qed

theorem unusable_not_clean_but_flagged_witness:
  "example_sensors_df ! 2 \<in> set example_sensors_df
   \<and> unusable (example_sensors_df ! 2)
   \<and> distinct (map sensor_index example_sensors_df)
   \<and> rename_pm25 (example_sensors_df ! 2) \<notin> set (clean_data example_now example_sensors_df)
   \<and> sensor_index (example_sensors_df ! 2)
       \<in> set (get_flagged example_sensors_df (clean_data example_now example_sensors_df))"
proof -
  have m: "example_sensors_df ! 2 \<in> set example_sensors_df"
    by (simp add: example_sensors_df_eval)
  have u: "unusable (example_sensors_df ! 2)"
    by (simp add: example_sensors_df_eval unusable_def cell_ge_def)
  have d: "distinct (map sensor_index example_sensors_df)"
    by (simp add: example_sensors_df_eval)
  from unusable_not_clean_but_flagged [OF m u, of example_now] d m u
  show ?thesis by blast
qed

text \<open>
  The claim as it was stated fails: sensor 3 of the example reads 1000, and the run
  returns it in \<open>flagged_sensor_ids\<close>.
\<close>

theorem unusable_is_flagged_counterexample:
  "example_rows ! 2 \<in> set example_rows
   \<and> cell_ge (pm2_5_10minute (example_rows ! 2)) 1000
   \<and> sensor_index (example_rows ! 2) = Some 3
   \<and> fst (Get_spikes_df example_env ''key'' [1, 2, 3, 4] 35 world0) =
       Inr ([(Some 1, Some 40)], \<lparr>wall = 0, tzinfo = Some ''America/Chicago''\<rparr>,
            [Some 2, Some 3])"
  by (simp add: example_run) (simp add: example_rows_def cell_ge_def)

text \<open>
  C6, as amended. The spikes are exactly the clean rows with a reading of at least the
  threshold, as pairs of \<open>sensor_index\<close> and \<open>pm25\<close>, in order. A threshold of 0
  returns every clean row when no clean reading is negative, a threshold above every
  clean reading returns nothing, and an empty clean set gives an empty result.
\<close>

theorem spikes_exact:
  "get_spikes thr (clean_data now sensors_df) =
      map (\<lambda>r. (sensor_index r, pm25 r))
        (filter (\<lambda>r. \<exists>p. pm25 r = Some p \<and> thr \<le> p) (clean_data now sensors_df))
   \<and> ((\<forall>r \<in> set (clean_data now sensors_df). \<forall>p. pm25 r = Some p \<longrightarrow> 0 \<le> p) \<longrightarrow>
        get_spikes 0 (clean_data now sensors_df) =
          map (\<lambda>r. (sensor_index r, pm25 r)) (clean_data now sensors_df))
   \<and> ((\<forall>r \<in> set (clean_data now sensors_df). \<forall>p. pm25 r = Some p \<longrightarrow> p < thr) \<longrightarrow>
        get_spikes thr (clean_data now sensors_df) = [])
   \<and> (clean_data now sensors_df = [] \<longrightarrow> get_spikes thr (clean_data now sensors_df) = [])"
proof (intro conjI impI)
  have *: "cell_ge c thr \<longleftrightarrow> (\<exists>p. c = Some p \<and> thr \<le> p)" for c :: "real option"
    by (cases c) (simp_all add: cell_ge_def)
  show "get_spikes thr (clean_data now sensors_df) =
      map (\<lambda>r. (sensor_index r, pm25 r))
        (filter (\<lambda>r. \<exists>p. pm25 r = Some p \<and> thr \<le> p) (clean_data now sensors_df))"
    by (simp add: get_spikes_def *)
next
  assume a: "\<forall>r \<in> set (clean_data now sensors_df). \<forall>p. pm25 r = Some p \<longrightarrow> 0 \<le> p"
  have "filter (\<lambda>r. cell_ge (pm25 r) 0) (clean_data now sensors_df) = clean_data now sensors_df"
  proof (rule filter_True, rule ballI)
    fix r assume r: "r \<in> set (clean_data now sensors_df)"
    then obtain p where "pm25 r = Some p" using clean_notnull by blast
    with a r show "cell_ge (pm25 r) 0" by (simp add: cell_ge_def)
  qed
  then show "get_spikes 0 (clean_data now sensors_df) =
          map (\<lambda>r. (sensor_index r, pm25 r)) (clean_data now sensors_df)"
    by (simp add: get_spikes_def)
next
  assume a: "\<forall>r \<in> set (clean_data now sensors_df). \<forall>p. pm25 r = Some p \<longrightarrow> p < thr"
  have "filter (\<lambda>r. cell_ge (pm25 r) thr) (clean_data now sensors_df) = []"
    using a by (auto simp: filter_empty_conv cell_ge_def split: option.splits)
  then show "get_spikes thr (clean_data now sensors_df) = []"
    by (simp add: get_spikes_def)
next
  assume "clean_data now sensors_df = []"
  then show "get_spikes thr (clean_data now sensors_df) = []"
    by (simp add: get_spikes_def)
qed

theorem spikes_exact_witness:
  "get_spikes 0 (clean_data example_now (take 2 example_sensors_df)) =
     map (\<lambda>r. (sensor_index r, pm25 r)) (clean_data example_now (take 2 example_sensors_df))
   \<and> get_spikes 41 (clean_data example_now example_sensors_df) = []
   \<and> get_spikes 35 (clean_data example_now [example_sensors_df ! 1]) = []"
proof -
  have c2: "clean_data example_now (take 2 example_sensors_df) =
     [\<lparr>sensor_index = Some 1, last_seen = Some 0, channel_state = Some 3,
       channel_flags = Some 0, pm25 = Some 40\<rparr>]"
    by code_simp
  have c0: "clean_data example_now [example_sensors_df ! 1] = []"
    by code_simp
  have h0: "\<forall>r \<in> set (clean_data example_now (take 2 example_sensors_df)).
              \<forall>p. pm25 r = Some p \<longrightarrow> 0 \<le> p"
    by (simp add: c2)
  have h1: "\<forall>r \<in> set (clean_data example_now example_sensors_df).
              \<forall>p. pm25 r = Some p \<longrightarrow> p < 41"
    by (simp add: example_clean)
  from spikes_exact [of 41 example_now "take 2 example_sensors_df"] h0
    spikes_exact [of 41 example_now example_sensors_df] h1
    spikes_exact [of 35 example_now "[example_sensors_df ! 1]"] c0
  show ?thesis by blast
qed

text \<open>
  The claim as it was stated fails for a threshold of 0: sensor 4 of the example is
  clean with a reading of -1, and is not among the spikes.
\<close>

theorem threshold_zero_counterexample:
  "map (\<lambda>r. (sensor_index r, pm25 r)) (clean_data example_now example_sensors_df) =
     [(Some 1, Some 40), (Some 4, Some (- 1))]
   \<and> get_spikes 0 (clean_data example_now example_sensors_df) = [(Some 1, Some 40)]"
  by (simp add: example_clean get_spikes_def cell_ge_def)

text \<open>
  C8. The rows flagged by the mask, the clean rows and the rows dropped as unusable
  are together all the rows of the table; every identifier of the table is in
  \<open>flagged_sensor_ids\<close> or is the identifier of a clean row; and no identifier is
  both.
\<close>

theorem partition_cover:
  "set (map rename_pm25 sensors_df) =
     set (map rename_pm25 (filter (flags now) sensors_df))
     \<union> set (clean_data now sensors_df) \<union> set (dropped_unusable now sensors_df)
   \<and> set (map sensor_index sensors_df) =
     set (get_flagged sensors_df (clean_data now sensors_df))
     \<union> set (map sensor_index (clean_data now sensors_df))
   \<and> set (get_flagged sensors_df (clean_data now sensors_df))
     \<inter> set (map sensor_index (clean_data now sensors_df)) = {}"
proof (intro conjI)
  show "set (map rename_pm25 sensors_df) =
     set (map rename_pm25 (filter (flags now) sensors_df))
     \<union> set (clean_data now sensors_df) \<union> set (dropped_unusable now sensors_df)"
    by (rule rows_cover)
  show "set (map sensor_index sensors_df) =
     set (get_flagged sensors_df (clean_data now sensors_df))
     \<union> set (map sensor_index (clean_data now sensors_df))"
    using flagged_cover [of sensors_df "clean_data now sensors_df"]
      flagged_subset [of sensors_df "clean_data now sensors_df"]
      clean_ids_subset [of now sensors_df]
    by blast
  show "set (get_flagged sensors_df (clean_data now sensors_df))
     \<inter> set (map sensor_index (clean_data now sensors_df)) = {}"
    by (rule flagged_clean_disjoint)
qed

theorem partition_cover_witness:
  "set (map sensor_index example_sensors_df) = {Some 1, Some 2, Some 3, Some 4}
   \<and> set (get_flagged example_sensors_df (clean_data example_now example_sensors_df))
       \<union> set (map sensor_index (clean_data example_now example_sensors_df))
     = {Some 1, Some 2, Some 3, Some 4}
   \<and> set (get_flagged example_sensors_df (clean_data example_now example_sensors_df))
       \<inter> set (map sensor_index (clean_data example_now example_sensors_df)) = {}"
proof -
  have "set (map sensor_index example_sensors_df) = {Some 1, Some 2, Some 3, Some 4}"
    by (simp add: example_sensors_df_eval)
  with partition_cover [of example_sensors_df example_now] show ?thesis by simp
qed

text \<open>
  C10. In every run that returns, no identifier is both in \<open>spikes_df\<close> and in
  \<open>flagged_sensor_ids\<close>.
\<close>

theorem spikes_flagged_disjoint:
  assumes "Get_spikes_df env purpleAir_api sensor_ids spike_threshold w =
             (Inr (spikes_df, runtime, flagged_sensor_ids), w')"
  shows "set (map fst spikes_df) \<inter> set flagged_sensor_ids = {}"
proof -
  from Get_spikes_df_Inr [OF assms] obtain sensors_df now where
    s: "spikes_df = get_spikes spike_threshold (clean_data now sensors_df)" and
    f: "flagged_sensor_ids = get_flagged sensors_df (clean_data now sensors_df)"
    by blast
  show ?thesis
    unfolding s f
    using spikes_ids_subset [of spike_threshold "clean_data now sensors_df"]
      flagged_clean_disjoint [of sensors_df "clean_data now sensors_df"]
    by blast
qed

theorem spikes_flagged_disjoint_witness:
  "set (map fst [(Some (1::int), Some (40::real))]) \<inter> set [Some 2, Some 3] = {}
   \<and> fst (Get_spikes_df example_env ''key'' [1, 2, 3, 4] 35 world0) =
       Inr ([(Some 1, Some 40)], \<lparr>wall = 0, tzinfo = Some ''America/Chicago''\<rparr>,
            [Some 2, Some 3])"
  using spikes_flagged_disjoint [OF example_run] by (simp add: example_run)

subsection \<open>The request\<close>

lemma fetch_sensors_df_trace:
  "trace (snd (fetch_sensors_df env purpleAir_api sensor_ids w)) =
     trace w @ [Clock_read (Some ''America/Chicago''),
       Http_get (''https://api.purpleair.com/v1/sensors?'' @ query_string sensor_ids) purpleAir_api]"
  by (simp add: fetch_sensors_df_def datetime_now_def getSensorsData_def Let_def
      split: sum.splits)

lemma fetch_sensors_df_Inr:
  assumes "fetch_sensors_df env purpleAir_api sensor_ids w = (Inr (runtime, sensors_df), w1)"
  shows "runtime = fst (datetime_now env (Some ''America/Chicago'') w)
     \<and> (\<exists>data.
          purpleair env (''https://api.purpleair.com/v1/sensors?'' @ query_string sensor_ids)
            purpleAir_api = Inr data
          \<and> sensors_df = map correct_last_seen data)"
  using assms
  by (auto simp: fetch_sensors_df_def datetime_now_def getSensorsData_def Let_def
      split: sum.splits)

lemma Get_spikes_df_trace:
  "\<exists>rest. trace (snd (Get_spikes_df env purpleAir_api sensor_ids spike_threshold w)) =
     trace w @ Clock_read (Some ''America/Chicago'')
       # Http_get (''https://api.purpleair.com/v1/sensors?'' @ query_string sensor_ids)
           purpleAir_api
       # rest"
proof (cases "fetch_sensors_df env purpleAir_api sensor_ids w")
  case (Pair res w1)
  have t: "trace w1 =
     trace w @ [Clock_read (Some ''America/Chicago''),
       Http_get (''https://api.purpleair.com/v1/sensors?'' @ query_string sensor_ids) purpleAir_api]"
    using fetch_sensors_df_trace [of env purpleAir_api sensor_ids w] Pair by simp
  show ?thesis
  proof (cases res)
    case (Inl e)
    with Pair t show ?thesis by (simp add: Get_spikes_df_def)
  next
    case (Inr p)
    with Pair t show ?thesis
      by (cases p) (simp add: Get_spikes_df_def datetime_now_def Let_def)
  qed
qed

text \<open>
  C9. In every invocation the clock is read in the zone America/Chicago before the
  request is made; a run that returns hands back that reading as \<open>runtime\<close>, aware of
  the zone America/Chicago; and the table it works on is the answer of the service
  with every \<open>last_seen\<close> moved from the reported epoch second to the timestamp five
  hours (18000 seconds) earlier, the other columns as reported.
\<close>

theorem runtime_before_request:
  "(\<exists>rest. trace (snd (Get_spikes_df env purpleAir_api sensor_ids spike_threshold w)) =
       trace w @ Clock_read (Some ''America/Chicago'')
         # Http_get (''https://api.purpleair.com/v1/sensors?'' @ query_string sensor_ids)
             purpleAir_api
         # rest)
   \<and> (\<forall>spikes_df runtime flagged_sensor_ids w'.
        Get_spikes_df env purpleAir_api sensor_ids spike_threshold w =
          (Inr (spikes_df, runtime, flagged_sensor_ids), w') \<longrightarrow>
        tzinfo runtime = Some ''America/Chicago''
        \<and> wall runtime =
            utc_clock env (reads w)
            + utcoffset env ''America/Chicago'' (utc_clock env (reads w))
        \<and> (\<exists>data w1.
              purpleair env (''https://api.purpleair.com/v1/sensors?'' @ query_string sensor_ids)
                purpleAir_api = Inr data
              \<and> fetch_sensors_df env purpleAir_api sensor_ids w =
                  (Inr (runtime, map correct_last_seen data), w1)))
   \<and> last_seen (correct_last_seen r) =
       map_option (\<lambda>s. to_datetime_s (s - 5 * 60 * 60)) (last_seen r)
   \<and> sensor_index (correct_last_seen r) = sensor_index r
   \<and> channel_state (correct_last_seen r) = channel_state r
   \<and> channel_flags (correct_last_seen r) = channel_flags r
   \<and> pm2_5_10minute (correct_last_seen r) = pm2_5_10minute r"
proof (intro conjI allI impI)
  show "\<exists>rest. trace (snd (Get_spikes_df env purpleAir_api sensor_ids spike_threshold w)) =
       trace w @ Clock_read (Some ''America/Chicago'')
         # Http_get (''https://api.purpleair.com/v1/sensors?'' @ query_string sensor_ids)
             purpleAir_api
         # rest"
    by (rule Get_spikes_df_trace)
next
  fix spikes_df runtime flagged_sensor_ids w'
  assume run: "Get_spikes_df env purpleAir_api sensor_ids spike_threshold w =
          (Inr (spikes_df, runtime, flagged_sensor_ids), w')"
  from Get_spikes_df_Inr [OF run] obtain sensors_df w1 where
    f: "fetch_sensors_df env purpleAir_api sensor_ids w = (Inr (runtime, sensors_df), w1)"
    by blast
  from fetch_sensors_df_Inr [OF f] obtain data where
    r: "runtime = fst (datetime_now env (Some ''America/Chicago'') w)" and
    d: "purpleair env (''https://api.purpleair.com/v1/sensors?'' @ query_string sensor_ids)
          purpleAir_api = Inr data" and
    s: "sensors_df = map correct_last_seen data"
    by blast
  show "tzinfo runtime = Some ''America/Chicago''"
    by (simp add: r datetime_now_def Let_def)
  show "wall runtime =
      utc_clock env (reads w) + utcoffset env ''America/Chicago'' (utc_clock env (reads w))"
    by (simp add: r datetime_now_def Let_def)
  show "\<exists>data w1.
      purpleair env (''https://api.purpleair.com/v1/sensors?'' @ query_string sensor_ids)
        purpleAir_api = Inr data
      \<and> fetch_sensors_df env purpleAir_api sensor_ids w =
          (Inr (runtime, map correct_last_seen data), w1)"
    using d f s by blast
next
  show "last_seen (correct_last_seen r) =
       map_option (\<lambda>s. to_datetime_s (s - 5 * 60 * 60)) (last_seen r)"
    by (cases "last_seen r")
      (simp_all add: correct_last_seen_def to_datetime_s_def Timedelta_hours_def)
qed (simp_all add: correct_last_seen_def)

theorem runtime_before_request_witness:
  "fst (Get_spikes_df example_env ''key'' [1, 2, 3, 4] 35 world0) =
     Inr ([(Some 1, Some 40)], \<lparr>wall = 0, tzinfo = Some ''America/Chicago''\<rparr>,
          [Some 2, Some 3])
   \<and> tzinfo \<lparr>wall = 0, tzinfo = Some ''America/Chicago''\<rparr> = Some ''America/Chicago''
   \<and> (\<exists>w1. fetch_sensors_df example_env ''key'' [1, 2, 3, 4] world0 =
        (Inr (\<lparr>wall = 0, tzinfo = Some ''America/Chicago''\<rparr>, example_sensors_df), w1))"
proof -
  have p: "purpleair example_env url key = Inr example_rows" for url key
    by (simp add: example_env_def)
  from runtime_before_request [of example_env "''key''" "[1, 2, 3, 4]" 35 world0] example_run
  have "\<exists>data w1.
      purpleair example_env
        (''https://api.purpleair.com/v1/sensors?'' @ query_string [1, 2, 3, 4]) ''key'' = Inr data
      \<and> fetch_sensors_df example_env ''key'' [1, 2, 3, 4] world0 =
          (Inr (\<lparr>wall = 0, tzinfo = Some ''America/Chicago''\<rparr>, map correct_last_seen data), w1)"
    by blast
  then have "\<exists>w1. fetch_sensors_df example_env ''key'' [1, 2, 3, 4] world0 =
        (Inr (\<lparr>wall = 0, tzinfo = Some ''America/Chicago''\<rparr>, example_sensors_df), w1)"
    by (auto simp: p example_sensors_df_def)
  then show ?thesis by (simp add: example_run)
qed

subsection \<open>The claims on Send\_Alerts\<close>

lemma Users_nearby_sensor_set:
  "set (fst (Users_nearby_sensor gis db i d)) =
     {record_id u | u s. u \<in> set (sign_up db) \<and> s \<in> set (stations db)
        \<and> s_sensor_index s = i \<and> subscribed u
        \<and> ST_Distance gis (ST_Transform gis (u_geometry u) 26915)
              (ST_Transform gis (s_geometry s) 26915) \<le> d}"
  by (auto simp: Users_nearby_sensor_def ST_DWithin_def Let_def) force

text \<open>
  C7. The identifiers returned are exactly those of the subscribed users whose
  projected geometry (EPSG 26915, metres) is at a distance of at most D from the
  projected geometry of a station with the given index; a larger D removes no user;
  and an index that no station has gives the empty list.
\<close>

theorem nearby_exact:
  "set (fst (Users_nearby_sensor gis db i d)) =
     {record_id u | u s. u \<in> set (sign_up db) \<and> s \<in> set (stations db)
        \<and> s_sensor_index s = i \<and> subscribed u
        \<and> ST_Distance gis (ST_Transform gis (u_geometry u) 26915)
              (ST_Transform gis (s_geometry s) 26915) \<le> d}
   \<and> (d \<le> d' \<longrightarrow>
        set (fst (Users_nearby_sensor gis db i d)) \<subseteq> set (fst (Users_nearby_sensor gis db i d')))
   \<and> (i \<notin> s_sensor_index ` set (stations db) \<longrightarrow> fst (Users_nearby_sensor gis db i d) = [])
   \<and> snd (Users_nearby_sensor gis db i d) = db"
proof (intro conjI impI)
  show "set (fst (Users_nearby_sensor gis db i d)) =
     {record_id u | u s. u \<in> set (sign_up db) \<and> s \<in> set (stations db)
        \<and> s_sensor_index s = i \<and> subscribed u
        \<and> ST_Distance gis (ST_Transform gis (u_geometry u) 26915)
              (ST_Transform gis (s_geometry s) 26915) \<le> d}"
    by (rule Users_nearby_sensor_set)
  show "set (fst (Users_nearby_sensor gis db i d)) \<subseteq> set (fst (Users_nearby_sensor gis db i d'))"
    if "d \<le> d'"
    unfolding Users_nearby_sensor_set using that by fastforce
  show "fst (Users_nearby_sensor gis db i d) = []"
    if "i \<notin> s_sensor_index ` set (stations db)"
  proof -
    from that have "filter (\<lambda>s. s_sensor_index s = i) (stations db) = []"
      by (auto simp: filter_empty_conv)
    then show ?thesis by (simp add: Users_nearby_sensor_def)
  qed
  show "snd (Users_nearby_sensor gis db i d) = db"
    by (simp add: Users_nearby_sensor_def Let_def)
qed

theorem nearby_exact_witness:
  "fst (Users_nearby_sensor example_gis example_db 1 100) = [10]
   \<and> set (fst (Users_nearby_sensor example_gis example_db 1 100))
       \<subseteq> set (fst (Users_nearby_sensor example_gis example_db 1 500))
   \<and> fst (Users_nearby_sensor example_gis example_db 1 500) = [10, 11]
   \<and> fst (Users_nearby_sensor example_gis example_db 2 100) = []"
proof -
  have a: "fst (Users_nearby_sensor example_gis example_db 1 100) = [10]"
    and b: "fst (Users_nearby_sensor example_gis example_db 1 500) = [10, 11]"
    by code_simp+
  have le: "(100::real) \<le> 500" by simp
  have n: "2 \<notin> s_sensor_index ` set (stations example_db)"
    by (simp add: example_db_def)
  from nearby_exact [of example_gis example_db 1 100 500] le
    nearby_exact [of example_gis example_db 2 100 100] n a b
  show ?thesis by blast
qed

lemma Users_to_message_new_alert_set:
  "set (fst (Users_to_message_new_alert db record_ids)) =
     {i \<in> set record_ids. \<exists>u \<in> set (sign_up db).
        record_id u = i \<and> active_alerts u = [] \<and> cached_alerts u = []}"
  by (auto simp: Users_to_message_new_alert_def)

text \<open>
  C5. The identifiers returned are exactly the candidates that are the \<open>record_id\<close>
  of a user with no active and no cached alert; where \<open>record_id\<close> identifies the
  users, a user with an active or a cached alert is not returned; the store is left
  as it was, so a second call gives the same result.
\<close>

theorem new_alert_exact:
  "set (fst (Users_to_message_new_alert db record_ids)) =
     {i \<in> set record_ids. \<exists>u \<in> set (sign_up db).
        record_id u = i \<and> active_alerts u = [] \<and> cached_alerts u = []}
   \<and> (distinct (map record_id (sign_up db)) \<longrightarrow>
        (\<forall>u \<in> set (sign_up db). active_alerts u \<noteq> [] \<or> cached_alerts u \<noteq> [] \<longrightarrow>
           record_id u \<notin> set (fst (Users_to_message_new_alert db record_ids))))
   \<and> snd (Users_to_message_new_alert db record_ids) = db
   \<and> Users_to_message_new_alert (snd (Users_to_message_new_alert db record_ids)) record_ids =
       Users_to_message_new_alert db record_ids"
proof (intro conjI impI ballI)
  show "set (fst (Users_to_message_new_alert db record_ids)) =
     {i \<in> set record_ids. \<exists>u \<in> set (sign_up db).
        record_id u = i \<and> active_alerts u = [] \<and> cached_alerts u = []}"
    by (rule Users_to_message_new_alert_set)
  show s: "snd (Users_to_message_new_alert db record_ids) = db"
    by (simp add: Users_to_message_new_alert_def)
  show "Users_to_message_new_alert (snd (Users_to_message_new_alert db record_ids)) record_ids =
       Users_to_message_new_alert db record_ids"
    by (simp add: s)
next
  fix u
  assume d: "distinct (map record_id (sign_up db))" and u: "u \<in> set (sign_up db)"
    and a: "active_alerts u \<noteq> [] \<or> cached_alerts u \<noteq> []"
  show "record_id u \<notin> set (fst (Users_to_message_new_alert db record_ids))"
  proof
    assume "record_id u \<in> set (fst (Users_to_message_new_alert db record_ids))"
    then obtain u' where u': "u' \<in> set (sign_up db)" "record_id u' = record_id u"
      "active_alerts u' = []" "cached_alerts u' = []"
      unfolding Users_to_message_new_alert_set by blast
    from d have "inj_on record_id (set (sign_up db))" by (simp add: distinct_map)
    with u u' have "u' = u" by (auto dest: inj_onD)
    with u' a show False by simp
  qed
qed

theorem new_alert_exact_witness:
  "fst (Users_to_message_new_alert example_db [10, 11, 12, 13]) = [10]
   \<and> distinct (map record_id (sign_up example_db))
   \<and> 11 \<notin> set (fst (Users_to_message_new_alert example_db [10, 11, 12, 13]))
   \<and> 12 \<notin> set (fst (Users_to_message_new_alert example_db [10, 11, 12, 13]))
   \<and> snd (Users_to_message_new_alert example_db [10, 11, 12, 13]) = example_db"
proof -
  have r: "fst (Users_to_message_new_alert example_db [10, 11, 12, 13]) = [10]"
    by code_simp
  have d: "distinct (map record_id (sign_up example_db))"
    by (simp add: example_db_def)
  have u1: "sign_up example_db ! 1 \<in> set (sign_up example_db)"
    and u2: "sign_up example_db ! 2 \<in> set (sign_up example_db)"
    by (simp_all add: example_db_def)
  have a1: "active_alerts (sign_up example_db ! 1) \<noteq> []"
    and i1: "record_id (sign_up example_db ! 1) = 11"
    and a2: "cached_alerts (sign_up example_db ! 2) \<noteq> []"
    and i2: "record_id (sign_up example_db ! 2) = 12"
    by (simp_all add: example_db_def)
  from new_alert_exact [of example_db "[10, 11, 12, 13]"] d u1 u2 a1 a2
  have "record_id (sign_up example_db ! 1)
          \<notin> set (fst (Users_to_message_new_alert example_db [10, 11, 12, 13]))"
    and "record_id (sign_up example_db ! 2)
          \<notin> set (fst (Users_to_message_new_alert example_db [10, 11, 12, 13]))"
    and "snd (Users_to_message_new_alert example_db [10, 11, 12, 13]) = example_db"
    by blast+
  with r d i1 i2 show ?thesis by simp
qed

lemma load_global_report_id: "load_global ''report_id'' = Inl (NameError ''report_id'')"
  by code_simp

lemma initialize_report_raises:
  "initialize_report current_timestamp db record_id' reports_for_day =
     (Inl (NameError ''report_id''), db)"
  by (simp add: initialize_report_def load_global_report_id)

text \<open>
  C3: what the code does. No global of the module is named \<open>report_id\<close>, so every
  call of \<open>initialize_report\<close> raises NameError when it formats the INSERT, and the
  store is left as it was: no report is written and no pair is returned. Here the call
  is for user 12 of the example, whose cached alert 9 started an hour before.
\<close>

theorem initialize_report_NameError:
  "initialize_report 3600000000 example_db 12 1 = (Inl (NameError ''report_id''), example_db)
   \<and> reports_archive (snd (initialize_report 3600000000 example_db 12 1)) = []"
  by (simp add: initialize_report_raises) (simp add: example_db_def)

lemma send_all_messages_store:
  "store (snd (send_all_messages send_texts record_ids messages st)) = store st"
  by (simp add: send_all_messages_def get_phone_numbers_def update_user_table_def print_def
      Let_def split: sum.splits)

text \<open>
  C4: what the code does. \<open>update_user_table\<close> reads the counters and prints the new
  values; no statement writes them, so after \<open>send_all_messages\<close> the store is as it
  was before: \<open>messages_sent\<close> and \<open>last_messaged\<close> of every user are unchanged.
  Here one message goes to user 10 of the example and is delivered.
\<close>

theorem messages_sent_not_incremented:
  "fst (send_all_messages (\<lambda>numbers messages. Inr [7200000000]) [10] [''spike'']
         \<lparr>store = example_db, stdout = []\<rparr>) = Inr ()
   \<and> map (\<lambda>u. (record_id u, messages_sent u, last_messaged u))
       (sign_up (store (snd (send_all_messages (\<lambda>numbers messages. Inr [7200000000]) [10]
          [''spike''] \<lparr>store = example_db, stdout = []\<rparr>)))) =
     [(10, 0, None), (11, 2, Some 0), (12, 1, Some 0)]
   \<and> stdout (snd (send_all_messages (\<lambda>numbers messages. Inr [7200000000]) [10]
          [''spike''] \<lparr>store = example_db, stdout = []\<rparr>)) =
     [Line ''getting numbers!'', Line ''updating Sign Up Information'',
      Values [10] [7200000000] [1],
      Line ''fancy SQL to update the sign up table still pending'']"
  by code_simp

end
